theory Spec2Isabelle
  imports Complex_Main "HOL-Library.Sublist"
begin

section \<open>Values shared by all functions of \<open>ml_utils/classification.py\<close>\<close>

text \<open>
  The module is glue code over three libraries (scikit-learn's metrics, matplotlib and
  seaborn).  The library functions are not code of this repository: every function of
  the module takes the library functions it calls as its first arguments, so each
  theorem holds for whatever the library computes.  A library call can raise; it
  returns \<open>error + 'a\<close>, with \<open>Inl\<close> the exception, and an exception raised inside a
  function of the module propagates, as no function of the module has a \<open>try\<close>.
\<close>

datatype error = ValueError | IndexError | ZeroDivisionError | TypeError

text \<open>
  A Python float is a double.  The module never does arithmetic on the doubles a
  library returns, it only compares them (\<open><=\<close>, \<open>>=\<close>) and hands them on, so a
  finite double is represented by the real number it denotes, next to the three special
  values.  Comparison follows IEEE 754: every comparison with NaN is false.  A float
  constant of the source (\<open>0.5\<close>, \<open>-0.05\<close>, \<open>1.05\<close>) is the real it is written as.
\<close>

datatype pyfloat = NaN | NegInf | Fin real | PosInf

fun float_le :: "pyfloat \<Rightarrow> pyfloat \<Rightarrow> bool" where
  "float_le NaN y = False"
| "float_le x NaN = False"
| "float_le NegInf y = True"
| "float_le x PosInf = True"
| "float_le (Fin a) (Fin b) = (a \<le> b)"
| "float_le x y = False"

text \<open>Python's \<open>a >= b\<close> on floats.\<close>

definition float_ge :: "pyfloat \<Rightarrow> pyfloat \<Rightarrow> bool" where
  "float_ge a b = float_le b a"

subsection \<open>The numpy operations on one-dimensional arrays that the module uses\<close>

text \<open>\<open>arr <= scalar\<close> and \<open>arr >= scalar\<close>: elementwise, the scalar broadcast.\<close>

definition np_le :: "pyfloat list \<Rightarrow> pyfloat \<Rightarrow> bool list" where
  "np_le arr c = map (\<lambda>x. float_le x c) arr"

definition np_ge :: "pyfloat list \<Rightarrow> pyfloat \<Rightarrow> bool list" where
  "np_ge arr c = map (\<lambda>x. float_ge x c) arr"

text \<open>
  \<open>a & b\<close> on two boolean arrays: elementwise when the shapes agree, an array of
  length one is broadcast against the other, any other pair of shapes raises
  \<open>ValueError\<close> (operands could not be broadcast together).
\<close>

definition np_and :: "bool list \<Rightarrow> bool list \<Rightarrow> error + bool list" where
  "np_and a b =
     (if length a = length b then Inr (map (\<lambda>(x, y). x \<and> y) (zip a b))
      else if length a = 1 then Inr (map (\<lambda>y. hd a \<and> y) b)
      else if length b = 1 then Inr (map (\<lambda>x. x \<and> hd b) a)
      else Inl ValueError)"

text \<open>
  \<open>arr[mask]\<close> with a boolean mask: the elements at the positions where the mask is
  true, in place; a mask of another length raises \<open>IndexError\<close>.
\<close>

definition np_getitem_mask :: "'a list \<Rightarrow> bool list \<Rightarrow> error + 'a list" where
  "np_getitem_mask arr msk =
     (if length msk = length arr then Inr (map fst (filter snd (zip arr msk)))
      else Inl IndexError)"

section \<open>\<open>find_threshold\<close>\<close>

text \<open>
  \<open>roc_curve(y_test, y_preds)\<close> returns the three arrays \<open>fpr\<close>, \<open>tpr\<close> and
  \<open>thresholds\<close>, or raises.
\<close>

type_synonym ('l, 'p) roc_curve_fn =
  "'l list \<Rightarrow> 'p list \<Rightarrow> error + (pyfloat list \<times> pyfloat list \<times> pyfloat list)"

definition find_threshold ::
  "('l, 'p) roc_curve_fn \<Rightarrow> 'l list \<Rightarrow> 'p list \<Rightarrow> pyfloat \<Rightarrow> pyfloat \<Rightarrow> error + pyfloat list"
where
  "find_threshold roc_curve y_test y_preds fpr_below tpr_above =
     (case roc_curve y_test y_preds of
        Inl e \<Rightarrow> Inl e
      | Inr (fpr, tpr, thresholds) \<Rightarrow>
          (case np_and (np_le fpr fpr_below) (np_ge tpr tpr_above) of
             Inl e \<Rightarrow> Inl e
           | Inr msk \<Rightarrow> np_getitem_mask thresholds msk))"

text \<open>
  The library documents that the three arrays of a ROC curve have one entry per curve
  point, hence the same length.
\<close>

definition roc_wf :: "pyfloat list \<times> pyfloat list \<times> pyfloat list \<Rightarrow> bool" where
  "roc_wf c = (case c of (fpr, tpr, thresholds) \<Rightarrow>
     length fpr = length thresholds \<and> length tpr = length thresholds)"

text \<open>Position \<open>i\<close> of the curve meets both bounds.\<close>

definition qualifies ::
  "pyfloat list \<Rightarrow> pyfloat list \<Rightarrow> pyfloat \<Rightarrow> pyfloat \<Rightarrow> nat \<Rightarrow> bool" where
  "qualifies fpr tpr fpr_below tpr_above i =
     (float_le (fpr ! i) fpr_below \<and> float_ge (tpr ! i) tpr_above)"

text \<open>
  The curve of the spec's example, \<open>roc_curve([1,0,1,0], [0.9,0.2,0.6,0.4])\<close>, as
  the library returns it; used to instantiate the theorems.
\<close>

definition example_roc :: "(nat, real) roc_curve_fn" where
  "example_roc y_test y_preds =
     Inr ([Fin 0, Fin 0, Fin 0, Fin 1],
          [Fin 0, Fin (1/2), Fin 1, Fin 1],
          [PosInf, Fin (9/10), Fin (6/10), Fin (2/10)])"


section \<open>Arrays, labels and plotting surfaces\<close>

text \<open>
  A two-dimensional numpy array: its rows, and the number of columns (which the rows
  alone do not give when there is no row).
\<close>

datatype 'a ndarray2 = NDArray2 (ncols: nat) (rows: "'a list list")

definition nrows :: "'a ndarray2 \<Rightarrow> nat" where
  "nrows a = length (rows a)"

definition array2_wf :: "'a ndarray2 \<Rightarrow> bool" where
  "array2_wf a = list_all (\<lambda>r. length r = ncols a) (rows a)"

text \<open>\<open>a.T\<close>: entry \<open>(j, i)\<close> of the result is entry \<open>(i, j)\<close> of \<open>a\<close>.\<close>

definition np_T :: "'a ndarray2 \<Rightarrow> 'a ndarray2" where
  "np_T a = NDArray2 (nrows a) (map (\<lambda>j. map (\<lambda>r. r ! j) (rows a)) [0..<ncols a])"

text \<open>\<open>a[i, j]\<close>; an index out of range raises \<open>IndexError\<close>.\<close>

definition cell :: "'a ndarray2 \<Rightarrow> nat \<Rightarrow> nat \<Rightarrow> error + 'a" where
  "cell a i j = (if i < nrows a \<and> j < ncols a then Inr (rows a ! i ! j) else Inl IndexError)"

text \<open>\<open>a[:, i]\<close>: column \<open>i\<close>; a column that does not exist raises \<open>IndexError\<close>.\<close>

definition getcol :: "'a ndarray2 \<Rightarrow> nat \<Rightarrow> error + 'a list" where
  "getcol a i = (if i < ncols a then Inr (map (\<lambda>r. r ! i) (rows a)) else Inl IndexError)"

text \<open>\<open>a.flatten()\<close>: row after row.\<close>

definition flatten :: "'a ndarray2 \<Rightarrow> 'a list" where
  "flatten a = concat (rows a)"

text \<open>
  \<open>y_test == class_label\<close> (elementwise), Python's \<open>sum\<close> of the booleans, and
  \<open>np.where(y_test == class_label, 1, 0)\<close>.
\<close>

definition np_eq :: "'c list \<Rightarrow> 'c \<Rightarrow> bool list" where
  "np_eq y c = map (\<lambda>v. v = c) y"

definition py_sum :: "bool list \<Rightarrow> int" where
  "py_sum bs = sum_list (map (\<lambda>b. if b then 1 else 0) bs)"

definition np_where :: "bool list \<Rightarrow> int \<Rightarrow> int \<Rightarrow> int list" where
  "np_where bs a b = map (\<lambda>c. if c then a else b) bs"

text \<open>
  \<open>sum(y_test == c)/len(y_test)\<close>, for \<open>y_test\<close> an array (numpy or pandas), on
  which \<open>==\<close> is elementwise.  On an empty array the sum is the Python integer 0 and
  the division raises \<open>ZeroDivisionError\<close>; otherwise the result is the double nearest
  to the quotient, represented by the quotient itself.
\<close>

definition class_share :: "'c list \<Rightarrow> 'c \<Rightarrow> error + pyfloat" where
  "class_share y_test c =
     (if length y_test = 0 then Inl ZeroDivisionError
      else Inr (Fin (real_of_int (py_sum (np_eq y_test c)) / real (length y_test))))"

text \<open>\<open>y_test.unique()\<close> (pandas): the distinct values in order of first appearance.\<close>

definition unique :: "'c list \<Rightarrow> 'c list" where
  "unique y = fold (\<lambda>v seen. if v \<in> set seen then seen else seen @ [v]) y []"

text \<open>
  An f-string is kept as its fragments: literal text, \<open>{x}\<close> of a class label, and
  \<open>{x:.2}\<close> of a float (the two-significant-digit rendering itself is not modelled).
\<close>

datatype 'c frag = S string | V 'c | F2 pyfloat

type_synonym 'c fstring = "'c frag list"

text \<open>
  What the module draws on an Axes: \<open>plot(x, y, label=...)\<close> and
  \<open>axhline(y, label=...)\<close>.  Colour, line width and line style are constants of the
  source that neither create nor move an artist; they are left out.
\<close>

datatype 'c artist =
    Line2D "pyfloat list" "pyfloat list" "'c fstring"
  | HLine pyfloat "'c fstring"

text \<open>
  The call \<open>sns.heatmap(data, square=True, annot=True, fmt='d', cbar=True, cmap=...,
  ax=ax, **kwargs)\<close> as the renderer receives it: the matrix, the two arguments that
  decide the cell texts, and the caller's extra keyword arguments, a dictionary kept as
  the list of its items.  (\<open>square\<close>, \<open>cbar\<close> and \<open>cmap\<close> are styling constants of
  the source.)
\<close>

record heatmap_call =
  data :: "int ndarray2"
  annot :: bool
  fmt :: string
  kwargs :: "(string \<times> string) list"

text \<open>
  A heatmap as it stands on an Axes: the matrix of the cell values shown, and the texts
  written into cells, one integer per annotated cell.
\<close>

record drawn_heatmap =
  shown :: "int ndarray2"
  texts :: "int list"

record 'c axes =
  artists :: "'c artist list"
  heatmap :: "drawn_heatmap option"
  has_legend :: bool
  title :: "'c fstring"
  xlabel :: string
  ylabel :: string
  xticks :: "real list option"
  xticklabels :: "string list option"
  yticks :: "real list option"
  yticklabels :: "string list option"
  xlim :: "(real \<times> real) option"
  ylim :: "(real \<times> real) option"

text \<open>A fresh Axes, as \<open>plt.subplots\<close> creates it.\<close>

definition new_axes :: "'c axes" where
  "new_axes = \<lparr>artists = [], heatmap = None, has_legend = False, title = [],
     xlabel = [], ylabel = [], xticks = None, xticklabels = None,
     yticks = None, yticklabels = None, xlim = None, ylim = None\<rparr>"


subsection \<open>The methods of an Axes that the module calls\<close>

definition plot :: "'c axes \<Rightarrow> pyfloat list \<Rightarrow> pyfloat list \<Rightarrow> 'c fstring \<Rightarrow> 'c axes" where
  "plot ax x y lbl = ax\<lparr>artists := artists ax @ [Line2D x y lbl]\<rparr>"

definition axhline :: "'c axes \<Rightarrow> pyfloat \<Rightarrow> 'c fstring \<Rightarrow> 'c axes" where
  "axhline ax y lbl = ax\<lparr>artists := artists ax @ [HLine y lbl]\<rparr>"

definition legend :: "'c axes \<Rightarrow> 'c axes" where
  "legend ax = ax\<lparr>has_legend := True\<rparr>"

definition set_title :: "'c axes \<Rightarrow> 'c fstring \<Rightarrow> 'c axes" where
  "set_title ax t = ax\<lparr>title := t\<rparr>"

definition set_xlabel :: "'c axes \<Rightarrow> string \<Rightarrow> 'c axes" where
  "set_xlabel ax t = ax\<lparr>xlabel := t\<rparr>"

definition set_ylabel :: "'c axes \<Rightarrow> string \<Rightarrow> 'c axes" where
  "set_ylabel ax t = ax\<lparr>ylabel := t\<rparr>"

definition set_xlim :: "'c axes \<Rightarrow> real \<Rightarrow> real \<Rightarrow> 'c axes" where
  "set_xlim ax lo hi = ax\<lparr>xlim := Some (lo, hi)\<rparr>"

definition set_ylim :: "'c axes \<Rightarrow> real \<Rightarrow> real \<Rightarrow> 'c axes" where
  "set_ylim ax lo hi = ax\<lparr>ylim := Some (lo, hi)\<rparr>"

definition set_xticks :: "'c axes \<Rightarrow> real list \<Rightarrow> 'c axes" where
  "set_xticks ax ts = ax\<lparr>xticks := Some ts\<rparr>"

definition set_yticks :: "'c axes \<Rightarrow> real list \<Rightarrow> 'c axes" where
  "set_yticks ax ts = ax\<lparr>yticks := Some ts\<rparr>"

text \<open>
  \<open>set_xticklabels(labels)\<close>: once the tick positions have been fixed by
  \<open>set_xticks\<close>, matplotlib raises \<open>ValueError\<close> when the number of labels is not
  the number of positions.  This is the only failure of the tick-labelling calls.
\<close>

definition set_xticklabels :: "'c axes \<Rightarrow> string list \<Rightarrow> error + 'c axes" where
  "set_xticklabels ax ls =
     (case xticks ax of
        Some ts \<Rightarrow> if length ts = length ls then Inr (ax\<lparr>xticklabels := Some ls\<rparr>)
                   else Inl ValueError
      | None \<Rightarrow> Inr (ax\<lparr>xticklabels := Some ls\<rparr>))"

definition set_yticklabels :: "'c axes \<Rightarrow> string list \<Rightarrow> error + 'c axes" where
  "set_yticklabels ax ls =
     (case yticks ax of
        Some ts \<Rightarrow> if length ts = length ls then Inr (ax\<lparr>yticklabels := Some ls\<rparr>)
                   else Inl ValueError
      | None \<Rightarrow> Inr (ax\<lparr>yticklabels := Some ls\<rparr>))"

text \<open>
  \<open>sns.heatmap\<close> is the library's, like the metric functions: a parameter that takes
  the call and the Axes passed as \<open>ax\<close> (\<open>None\<close> for pyplot's current one) and
  returns the Axes it drew on, or raises.  What it raises for (an unknown keyword, a
  matrix it cannot draw) and what it draws (a \<open>mask\<close> keyword hides cells) is the
  library's business; the theorems say what they assume of it.

  One failure belongs to the call itself: the parameters that line 27 to 30 bind,
  \<open>data\<close> by position and six by keyword.  Python raises \<open>TypeError\<close> (multiple
  values for an argument) when \<open>**kwargs\<close> names one of them again, and the renderer
  is not entered.
\<close>

type_synonym 'c heatmap_fn = "heatmap_call \<Rightarrow> 'c axes option \<Rightarrow> error + 'c axes"

definition heatmap_keywords :: "string list" where
  "heatmap_keywords = [''data'', ''square'', ''annot'', ''fmt'', ''cbar'', ''cmap'', ''ax'']"

definition repeats_keyword :: "(string \<times> string) list \<Rightarrow> bool" where
  "repeats_keyword kw = list_ex (\<lambda>k. k \<in> set heatmap_keywords) (map fst kw)"

section \<open>\<open>confusion_matrix_visual\<close>\<close>

text \<open>
  \<open>confusion_matrix(y_true, y_pred)\<close> is the library's; it returns a matrix of
  counts or raises.  \<open>title or 'Confusion Matrix'\<close> takes the default for \<open>None\<close>
  and for the empty string.
\<close>

type_synonym 'l confusion_matrix_fn = "'l list \<Rightarrow> 'l list \<Rightarrow> error + int ndarray2"

definition title_or :: "string option \<Rightarrow> string \<Rightarrow> string" where
  "title_or t d = (case t of None \<Rightarrow> d | Some s \<Rightarrow> if s = [] then d else s)"

definition confusion_matrix_visual ::
  "'l confusion_matrix_fn \<Rightarrow> 'c heatmap_fn \<Rightarrow> 'l list \<Rightarrow> 'l list \<Rightarrow> string list \<Rightarrow>
   'c axes option \<Rightarrow> string option \<Rightarrow> (string \<times> string) list \<Rightarrow> error + 'c axes"
where
  "confusion_matrix_visual confusion_matrix sns_heatmap y_true y_pred class_labels ax ttl kw =
     (case confusion_matrix y_true y_pred of
        Inl e \<Rightarrow> Inl e
      | Inr mat \<Rightarrow>
     (if repeats_keyword kw then Inl TypeError
      else
     (case sns_heatmap \<lparr>data = np_T mat, annot = True, fmt = ''d'', kwargs = kw\<rparr> ax of
        Inl e \<Rightarrow> Inl e
      | Inr axes0 \<Rightarrow>
          let axes1 = set_xlabel axes0 ''Actual'';
              axes2 = set_ylabel axes1 ''Model Prediction'';
              tick_marks = map (\<lambda>i. real i + 0.5) [0..<length class_labels];
              axes3 = set_xticks axes2 tick_marks
          in
     (case set_xticklabels axes3 class_labels of
        Inl e \<Rightarrow> Inl e
      | Inr axes4 \<Rightarrow>
          let axes5 = set_yticks axes4 tick_marks
          in
     (case set_yticklabels axes5 class_labels of
        Inl e \<Rightarrow> Inl e
      | Inr axes6 \<Rightarrow>
          Inr (set_title axes6 [S (title_or ttl ''Confusion Matrix'')]))))))"

text \<open>
  The library's documented result, used where a theorem needs a concrete matrix: the
  labels are the sorted distinct values of both vectors, entry \<open>(i, j)\<close> counts the
  samples whose true label is the \<open>i\<close>-th and whose predicted label is the \<open>j\<close>-th
  of them; vectors of different lengths, and empty ones, raise \<open>ValueError\<close>.
\<close>

definition sk_labels :: "'l::linorder list \<Rightarrow> 'l list \<Rightarrow> 'l list" where
  "sk_labels y_true y_pred = sort (unique (y_true @ y_pred))"

definition sk_confusion_matrix :: "('l::linorder) confusion_matrix_fn" where
  "sk_confusion_matrix y_true y_pred =
     (if length y_true \<noteq> length y_pred \<or> y_true = [] then Inl ValueError
      else
        let labels = sk_labels y_true y_pred
        in Inr (NDArray2 (length labels)
                 (map (\<lambda>t. map (\<lambda>p. int (length (filter (\<lambda>s. s = (t, p)) (zip y_true y_pred))))
                                labels)
                      labels)))"

text \<open>
  The renderer's documented result on the plain call, used where a theorem needs a
  concrete renderer: with \<open>annot=True\<close>, \<open>fmt='d'\<close>, no extra keyword argument and
  a matrix that has cells, it shows the matrix on the Axes given (a fresh one for
  \<open>None\<close>) and writes every cell's value into the cell.  Of what the renderer does to
  the Axes only the heatmap is kept.  On any other call the stand-in says nothing about
  the library: it raises, so that no instance can rest on it there.
\<close>

definition plain_heatmap :: "'c heatmap_fn" where
  "plain_heatmap call ax =
     (if kwargs call = [] \<and> annot call \<and> fmt call = ''d'' \<and>
         rows (data call) \<noteq> [] \<and> 0 < ncols (data call)
      then Inr ((case ax of None \<Rightarrow> new_axes | Some a \<Rightarrow> a)
                  \<lparr>heatmap := Some \<lparr>shown = data call, texts = flatten (data call)\<rparr>\<rparr>)
      else Inl ValueError)"

text \<open>
  The renderer has drawn the matrix \<open>d\<close> on the Axes \<open>a\<close> with every cell annotated,
  which is what it documents for \<open>annot=True\<close> when no keyword hides a cell.
\<close>

definition draws_all :: "int ndarray2 \<Rightarrow> 'c axes \<Rightarrow> bool" where
  "draws_all d a = (heatmap a = Some \<lparr>shown = d, texts = flatten d\<rparr>)"


section \<open>\<open>plot_pr_curve\<close>\<close>

text \<open>
  The library functions: \<open>precision_recall_curve(y, p)\<close> returns \<open>precision\<close>,
  \<open>recall\<close> and \<open>thresholds\<close>; \<open>average_precision_score(y, p, pos_label=c)\<close> and
  \<open>auc(x, y)\<close> return a float.  Each can raise.  \<open>plt.subplots()\<close> gives a fresh
  Axes.  In the title the f-string evaluates the average precision before the area.
\<close>

type_synonym ('l, 'p) curve_fn =
  "'l list \<Rightarrow> 'p list \<Rightarrow> error + (pyfloat list \<times> pyfloat list \<times> pyfloat list)"

type_synonym auc_fn = "pyfloat list \<Rightarrow> pyfloat list \<Rightarrow> error + pyfloat"

definition plot_pr_curve ::
  "('c, 'p) curve_fn \<Rightarrow> ('c list \<Rightarrow> 'p list \<Rightarrow> 'c \<Rightarrow> error + pyfloat) \<Rightarrow> auc_fn \<Rightarrow>
   'c list \<Rightarrow> 'p list \<Rightarrow> 'c \<Rightarrow> error + 'c axes"
where
  "plot_pr_curve precision_recall_curve average_precision_score auc y_test preds positive_class =
     (case precision_recall_curve y_test preds of
        Inl e \<Rightarrow> Inl e
      | Inr (precision, recall, thresholds) \<Rightarrow>
     (case class_share y_test positive_class of
        Inl e \<Rightarrow> Inl e
      | Inr share \<Rightarrow>
          let axes0 = axhline new_axes share [S ''baseline''];
              axes1 = plot axes0 recall precision [S ''model''];
              axes2 = legend axes1
          in
     (case average_precision_score y_test preds positive_class of
        Inl e \<Rightarrow> Inl e
      | Inr ap \<Rightarrow>
     (case auc recall precision of
        Inl e \<Rightarrow> Inl e
      | Inr a \<Rightarrow>
          let axes3 = set_title axes2
                        [S ''Precision-recall curve\<newline>'', S '' AP: '', F2 ap, S '' | '',
                         S ''AUC: '', F2 a];
              axes4 = set_xlabel axes3 ''Recall'';
              axes5 = set_ylabel axes4 ''Precision'';
              axes6 = set_xlim axes5 (- 0.05) 1.05
          in Inr (set_ylim axes6 (- 0.05) 1.05)))))"

section \<open>\<open>plot_multi_class_roc\<close>\<close>

text \<open>
  The body of the \<open>for\<close> loop over \<open>enumerate(class_labels)\<close>, lines 133 to 138: the
  loop stops at the first exception.
\<close>

fun roc_loop ::
  "(int, pyfloat) curve_fn \<Rightarrow> auc_fn \<Rightarrow> 'c list \<Rightarrow> pyfloat ndarray2 \<Rightarrow>
   (nat \<times> 'c) list \<Rightarrow> 'c axes \<Rightarrow> error + 'c axes"
where
  "roc_loop roc_curve auc y_test preds [] ax = Inr ax"
| "roc_loop roc_curve auc y_test preds ((i, class_label) # rest) ax =
     (let actuals = np_where (np_eq y_test class_label) 1 0
      in
     (case getcol preds i of
        Inl e \<Rightarrow> Inl e
      | Inr predicted_probabilities \<Rightarrow>
     (case roc_curve actuals predicted_probabilities of
        Inl e \<Rightarrow> Inl e
      | Inr (fpr, tpr, thresholds) \<Rightarrow>
     (case auc fpr tpr of
        Inl e \<Rightarrow> Inl e
      | Inr auc_score \<Rightarrow>
          roc_loop roc_curve auc y_test preds rest
            (plot ax fpr tpr [S ''class '', V class_label, S ''; AUC: '', F2 auc_score])))))"

definition plot_multi_class_roc ::
  "(int, pyfloat) curve_fn \<Rightarrow> auc_fn \<Rightarrow> ('c::linorder) list \<Rightarrow> pyfloat ndarray2 \<Rightarrow>
   'c axes option \<Rightarrow> error + 'c axes"
where
  "plot_multi_class_roc roc_curve auc y_test preds ax =
     (let ax0 = (case ax of None \<Rightarrow> new_axes | Some a \<Rightarrow> a);
          ax1 = plot ax0 [Fin 0, Fin 1] [Fin 0, Fin 1] [S ''baseline''];
          class_labels = sort (unique y_test)
      in
     (case roc_loop roc_curve auc y_test preds (enumerate 0 class_labels) ax1 of
        Inl e \<Rightarrow> Inl e
      | Inr ax2 \<Rightarrow>
          let ax3 = legend ax2;
              ax4 = set_title ax3 [S ''Multi-class ROC curve''];
              ax5 = set_xlabel ax4 ''False Positive Rate (FPR)''
          in Inr (set_ylabel ax5 ''True Positive Rate (TPR)'')))"


section \<open>\<open>plot_multi_class_pr_curve\<close>\<close>

text \<open>
  A figure and its subplots.  The Axes objects created by \<open>plt.subplots\<close> are kept by
  identity: \<open>objects\<close> holds them, an Axes is named by its position there, and
  \<open>fig_axes\<close> lists the ones attached to the figure (\<open>fig.axes\<close>).  The array
  \<open>axes\<close> of the source holds such names, so deleting a subplot from the figure does
  not take it out of the array.
\<close>

record 'c figure =
  objects :: "'c axes list"
  fig_axes :: "nat list"
  figsize :: "nat \<times> nat"

text \<open>
  \<open>plt.subplots(nrows, ncols, figsize=...)\<close>: \<open>nrows * ncols\<close> fresh Axes and the
  array of their names, row by row; matplotlib raises \<open>ValueError\<close> unless both
  counts are positive.  (With a single row the array has one dimension; \<open>flatten\<close>
  gives the same sequence.)
\<close>

definition subplots :: "nat \<Rightarrow> nat \<Rightarrow> nat \<times> nat \<Rightarrow> error + ('c figure \<times> nat ndarray2)" where
  "subplots n m fsize =
     (if n = 0 \<or> m = 0 then Inl ValueError
      else Inr (\<lparr>objects = replicate (n * m) new_axes, fig_axes = [0..<n * m], figsize = fsize\<rparr>,
                NDArray2 m (map (\<lambda>r. [r * m..<r * m + m]) [0..<n])))"

text \<open>\<open>fig.delaxes(a)\<close> detaches the Axes from the figure.\<close>

definition delaxes :: "'c figure \<Rightarrow> nat \<Rightarrow> 'c figure" where
  "delaxes fig a = fig\<lparr>fig_axes := removeAll a (fig_axes fig)\<rparr>"

text \<open>A method call on the object named \<open>a\<close>.\<close>

definition on_axes :: "'c figure \<Rightarrow> nat \<Rightarrow> ('c axes \<Rightarrow> 'c axes) \<Rightarrow> 'c figure" where
  "on_axes fig a f = fig\<lparr>objects := (objects fig)[a := f (objects fig ! a)]\<rparr>"

text \<open>\<open>np.ceil(len(class_labels) / 3).astype(int)\<close>.\<close>

definition row_count :: "nat \<Rightarrow> nat" where
  "row_count k = nat \<lceil>real k / 3\<rceil>"

text \<open>
  Lines 162 to 164.  Every index of \<open>range(len(class_labels), len(axes))\<close> is in
  range of \<open>axes\<close>.
\<close>

definition delete_unused :: "'c figure \<Rightarrow> nat list \<Rightarrow> nat \<Rightarrow> 'c figure" where
  "delete_unused fig axes k =
     (if length axes > k then fold (\<lambda>i f. delaxes f (axes ! i)) [k..<length axes] fig
      else fig)"

text \<open>
  The body of the loop of lines 166 to 181; \<open>axes[i]\<close> raises \<open>IndexError\<close> out of
  range, and the loop stops at the first exception.
\<close>

fun pr_loop ::
  "(int, pyfloat) curve_fn \<Rightarrow> auc_fn \<Rightarrow> (int list \<Rightarrow> pyfloat list \<Rightarrow> error + pyfloat) \<Rightarrow>
   'c list \<Rightarrow> pyfloat ndarray2 \<Rightarrow> nat list \<Rightarrow> (nat \<times> 'c) list \<Rightarrow> 'c figure \<Rightarrow>
   error + 'c figure"
where
  "pr_loop precision_recall_curve auc average_precision_score y_test preds axes [] fig = Inr fig"
| "pr_loop precision_recall_curve auc average_precision_score y_test preds axes
     ((i, class_label) # rest) fig =
     (if \<not> i < length axes then Inl IndexError
      else
     (case class_share y_test class_label of
        Inl e \<Rightarrow> Inl e
      | Inr share \<Rightarrow>
          let a = axes ! i;
              fig0 = on_axes fig a (\<lambda>x. axhline x share [S ''baseline'']);
              actuals = np_where (np_eq y_test class_label) 1 0
          in
     (case getcol preds i of
        Inl e \<Rightarrow> Inl e
      | Inr predicted_probabilities \<Rightarrow>
     (case precision_recall_curve actuals predicted_probabilities of
        Inl e \<Rightarrow> Inl e
      | Inr (precision, recall, thresholds) \<Rightarrow>
     (case auc recall precision of
        Inl e \<Rightarrow> Inl e
      | Inr auc_score \<Rightarrow>
     (case average_precision_score actuals predicted_probabilities of
        Inl e \<Rightarrow> Inl e
      | Inr ap_score \<Rightarrow>
          let fig1 = on_axes fig0 a (\<lambda>x. plot x recall precision
                       [S ''AUC: '', F2 auc_score, S ''; AP : '', F2 ap_score]);
              fig2 = on_axes fig1 a legend;
              fig3 = on_axes fig2 a (\<lambda>x. set_title x
                       [S ''Precision-recall curve: class '', V class_label]);
              fig4 = on_axes fig3 a (\<lambda>x. set_xlabel x ''Recall'');
              fig5 = on_axes fig4 a (\<lambda>x. set_ylabel x ''Precision'');
              fig6 = on_axes fig5 a (\<lambda>x. set_xlim x (- 0.05) 1.05);
              fig7 = on_axes fig6 a (\<lambda>x. set_ylim x (- 0.05) 1.05)
          in pr_loop precision_recall_curve auc average_precision_score y_test preds axes
               rest fig7))))))"

definition plot_multi_class_pr_curve ::
  "(int, pyfloat) curve_fn \<Rightarrow> auc_fn \<Rightarrow> (int list \<Rightarrow> pyfloat list \<Rightarrow> error + pyfloat) \<Rightarrow>
   ('c::linorder) list \<Rightarrow> pyfloat ndarray2 \<Rightarrow> error + ('c figure \<times> nat list)"
where
  "plot_multi_class_pr_curve precision_recall_curve auc average_precision_score y_test preds =
     (let class_labels = sort (unique y_test);
          rc = row_count (length class_labels)
      in
     (case subplots rc 3 (15, rc * 5) of
        Inl e \<Rightarrow> Inl e
      | Inr (fig, grid) \<Rightarrow>
          let axes = flatten grid;
              fig0 = delete_unused fig axes (length class_labels)
          in
     (case pr_loop precision_recall_curve auc average_precision_score y_test preds axes
             (enumerate 0 class_labels) fig0 of
        Inl e \<Rightarrow> Inl e
      | Inr fig1 \<Rightarrow> Inr (fig1, axes))))"

text \<open>
  What a reader of the finished heatmap counts: the annotated cells, and the tick
  marks set on the x axis and on the y axis.
\<close>

definition annotated_count :: "'c axes \<Rightarrow> nat" where
  "annotated_count ax = (case heatmap ax of None \<Rightarrow> 0 | Some h \<Rightarrow> length (texts h))"

definition tick_counts :: "'c axes \<Rightarrow> nat option \<times> nat option" where
  "tick_counts ax = (map_option length (xticks ax), map_option length (yticks ax))"

text \<open>
  The library's results on the example \<open>y_test = [1,1,0,0]\<close>,
  \<open>preds = [0.9,0.8,0.3,0.1]\<close>, used to instantiate the theorems on \<open>plot_pr_curve\<close>.
\<close>

definition example_prc :: "(nat, real) curve_fn" where
  "example_prc y_test preds =
     Inr ([Fin (1/2), Fin (2/3), Fin 1, Fin 1, Fin 1],
          [Fin 1, Fin 1, Fin 1, Fin (1/2), Fin 0],
          [Fin (1/10), Fin (3/10), Fin (8/10), Fin (9/10)])"

definition example_aps :: "nat list \<Rightarrow> real list \<Rightarrow> nat \<Rightarrow> error + pyfloat" where
  "example_aps y_test preds pos_label = Inr (Fin 1)"

definition example_auc :: auc_fn where
  "example_auc x y = Inr (Fin 1)"

text \<open>
  The claim on \<open>plot_multi_class_roc\<close> in its own words: the curve of the class
  \<open>c\<close> that stands at position \<open>i\<close>.  The true labels are binarized (1 where equal to
  \<open>c\<close>, else 0), the ROC curve is computed against column \<open>i\<close> of the probability
  table, and the curve is labelled with the class value and its AUC.
\<close>

definition one_vs_rest_roc ::
  "(int, pyfloat) curve_fn \<Rightarrow> auc_fn \<Rightarrow> 'c list \<Rightarrow> pyfloat ndarray2 \<Rightarrow> nat \<Rightarrow> 'c \<Rightarrow>
   error + 'c artist"
where
  "one_vs_rest_roc roc_curve auc y_test preds i c =
     (if \<not> i < ncols preds then Inl IndexError
      else
     (case roc_curve (map (\<lambda>v. if v = c then 1 else 0) y_test) (map (\<lambda>r. r ! i) (rows preds)) of
        Inl e \<Rightarrow> Inl e
      | Inr (fpr, tpr, thresholds) \<Rightarrow>
     (case auc fpr tpr of
        Inl e \<Rightarrow> Inl e
      | Inr a \<Rightarrow> Inr (Line2D fpr tpr [S ''class '', V c, S ''; AUC: '', F2 a]))))"

text \<open>
  Stand-ins for the library that hand back what they were given, so that an instance
  of a theorem shows which labels and which column each call received.
\<close>

definition probe_curve :: "(int, pyfloat) curve_fn" where
  "probe_curve actuals probabilities = Inr (map (\<lambda>a. Fin (real_of_int a)) actuals, probabilities, [])"

definition probe_auc :: auc_fn where
  "probe_auc x y = Inr (Fin (real (length x)))"


text \<open>A table of class probabilities for four samples and three classes.\<close>

definition example_preds :: "pyfloat ndarray2" where
  "example_preds = NDArray2 3
     [[Fin (1/10), Fin (2/10), Fin (7/10)],
      [Fin (8/10), Fin (1/10), Fin (1/10)],
      [Fin (2/10), Fin (6/10), Fin (2/10)],
      [Fin (7/10), Fin (2/10), Fin (1/10)]]"



section \<open>Properties of \<open>find_threshold\<close>\<close>

lemma mask_select_nth:
  "length m = length xs \<Longrightarrow>
   map fst (filter snd (zip xs m)) = map ((!) xs) (filter ((!) m) [0..<length xs])"
proof (induction xs arbitrary: m)
  case Nil
  then show ?case by simp
next
  case (Cons x xs)
  then obtain b bs where m: "m = b # bs" and len: "length bs = length xs"
    by (cases m) auto
  have upt: "[0..<length (x # xs)] = 0 # map Suc [0..<length xs]"
    by (simp add: upt_conv_Cons map_Suc_upt del: upt_Suc)
  show ?case
    unfolding upt m using Cons.IH [OF len]
    by (simp add: filter_map comp_def)
qed

lemma mask_select_subseq: "subseq (map fst (filter snd (zip xs m))) xs"
proof (induction xs arbitrary: m)
  case Nil
  then show ?case by simp
next
  case (Cons x xs)
  show ?case
  proof (cases m)
    case Nil
    then show ?thesis by simp
  next
    case (Cons b bs)
    with Cons.IH [of bs] show ?thesis by (cases b) auto
  qed
qed

lemma mask_select_set: "set (map fst (filter snd (zip xs m))) \<subseteq> set xs"
  by (auto dest: set_zip_leftD)

text \<open>Whenever \<open>find_threshold\<close> returns, it returns a masked copy of the thresholds.\<close>

lemma find_threshold_returns:
  assumes "find_threshold roc_curve y_test y_preds fpr_below tpr_above = Inr ts"
  shows "\<exists>fpr tpr thresholds msk.
           roc_curve y_test y_preds = Inr (fpr, tpr, thresholds) \<and>
           ts = map fst (filter snd (zip thresholds msk))"
  using assms
  by (auto simp: find_threshold_def np_getitem_mask_def split: sum.splits if_splits)

text \<open>On a curve whose three arrays have one length the function returns, and what.\<close>

lemma find_threshold_on_curve:
  assumes rc: "roc_curve y_test y_preds = Inr (fpr, tpr, thresholds)"
    and wf: "roc_wf (fpr, tpr, thresholds)"
  shows "find_threshold roc_curve y_test y_preds fpr_below tpr_above =
         Inr (map ((!) thresholds)
               (filter (qualifies fpr tpr fpr_below tpr_above) [0..<length thresholds]))"
proof -
  let ?m = "map (\<lambda>(x, y). x \<and> y) (zip (np_le fpr fpr_below) (np_ge tpr tpr_above))"
  from wf have lf: "length fpr = length thresholds" and lt: "length tpr = length thresholds"
    by (simp_all add: roc_wf_def)
  have lm: "length ?m = length thresholds"
    using lf lt by (simp add: np_le_def np_ge_def)
  have ft: "find_threshold roc_curve y_test y_preds fpr_below tpr_above =
            Inr (map fst (filter snd (zip thresholds ?m)))"
    using rc lf lt lm
    by (simp add: find_threshold_def np_and_def np_getitem_mask_def np_le_def np_ge_def)
  have "filter ((!) ?m) [0..<length thresholds] =
        filter (qualifies fpr tpr fpr_below tpr_above) [0..<length thresholds]"
    using lf lt by (intro filter_cong) (auto simp: qualifies_def np_le_def np_ge_def)
  with ft mask_select_nth [OF lm] show ?thesis by simp
qed

lemma example_roc_wf:
  "roc_wf ([Fin 0, Fin 0, Fin 0, Fin 1], [Fin 0, Fin (1/2), Fin 1, Fin 1],
           [PosInf, Fin (9/10), Fin (6/10), Fin (2/10)])"
  by (simp add: roc_wf_def)

lemma upt_4: "[0..<4] = [0, 1, 2, 3]"
  by (simp add: upt_rec)

text \<open>
  C1.  When the library returns a ROC curve (three arrays of one length),
  \<open>find_threshold\<close> returns, and it returns the thresholds at exactly the positions of
  the curve whose FPR is \<open><= fpr_below\<close> and whose TPR is \<open>>= tpr_above\<close>: every
  returned value is the threshold of a position that meets both bounds, and every
  position whose threshold is not returned violates at least one bound.
\<close>

theorem find_threshold_exact:
  assumes "roc_curve y_test y_preds = Inr (fpr, tpr, thresholds)"
    and "roc_wf (fpr, tpr, thresholds)"
  shows "\<exists>ts. find_threshold roc_curve y_test y_preds fpr_below tpr_above = Inr ts \<and>
           ts = map ((!) thresholds)
                  (filter (qualifies fpr tpr fpr_below tpr_above) [0..<length thresholds]) \<and>
           (\<forall>t \<in> set ts. \<exists>i < length thresholds. thresholds ! i = t \<and>
               float_le (fpr ! i) fpr_below \<and> float_ge (tpr ! i) tpr_above) \<and>
           (\<forall>i < length thresholds. thresholds ! i \<notin> set ts \<longrightarrow>
               \<not> float_le (fpr ! i) fpr_below \<or> \<not> float_ge (tpr ! i) tpr_above)"
proof -
  let ?q = "qualifies fpr tpr fpr_below tpr_above"
  let ?ts = "map ((!) thresholds) (filter ?q [0..<length thresholds])"
  have ret: "find_threshold roc_curve y_test y_preds fpr_below tpr_above = Inr ?ts"
    by (rule find_threshold_on_curve
        [where roc_curve = roc_curve and y_test = y_test and y_preds = y_preds, OF assms])
  have sound: "\<forall>t \<in> set ?ts. \<exists>i < length thresholds. thresholds ! i = t \<and>
      float_le (fpr ! i) fpr_below \<and> float_ge (tpr ! i) tpr_above"
    by (auto simp: qualifies_def)
  have complete: "\<forall>i < length thresholds. thresholds ! i \<notin> set ?ts \<longrightarrow>
      \<not> float_le (fpr ! i) fpr_below \<or> \<not> float_ge (tpr ! i) tpr_above"
  proof (intro allI impI)
    fix i
    assume i: "i < length thresholds" and out: "thresholds ! i \<notin> set ?ts"
    have "\<not> ?q i"
    proof
      assume "?q i"
      with i have "i \<in> set (filter ?q [0..<length thresholds])" by simp
      then have "thresholds ! i \<in> set ?ts" by (simp only: set_map) (rule imageI)
      with out show False by contradiction
    qed
    then show "\<not> float_le (fpr ! i) fpr_below \<or> \<not> float_ge (tpr ! i) tpr_above"
      by (simp add: qualifies_def)
  qed
  from ret sound complete show ?thesis by blast
qed

theorem find_threshold_exact_witness:
  "example_roc [1, 0, 1, 0] [9/10, 2/10, 6/10, 4/10] =
     Inr ([Fin 0, Fin 0, Fin 0, Fin 1], [Fin 0, Fin (1/2), Fin 1, Fin 1],
          [PosInf, Fin (9/10), Fin (6/10), Fin (2/10)]) \<and>
   find_threshold example_roc [1, 0, 1, 0] [9/10, 2/10, 6/10, 4/10] (Fin 0) (Fin 1) =
     Inr [Fin (6/10)]"
proof -
  have rc: "example_roc [1, 0, 1, 0] [9/10, 2/10, 6/10, 4/10] =
     Inr ([Fin 0, Fin 0, Fin 0, Fin 1], [Fin 0, Fin (1/2), Fin 1, Fin 1],
          [PosInf, Fin (9/10), Fin (6/10), Fin (2/10)])"
    by (simp add: example_roc_def)
  show ?thesis
    using find_threshold_exact [where roc_curve = example_roc and y_test = "[1, 0, 1, 0]"
        and y_preds = "[9/10, 2/10, 6/10, 4/10]" and fpr_below = "Fin 0"
        and tpr_above = "Fin 1", OF rc example_roc_wf] rc
    by (simp add: upt_4 qualifies_def float_ge_def)
qed

text \<open>
  C2.  Every value that \<open>find_threshold\<close> returns is an element of the threshold
  array that the library's ROC computation returned on the same input.
\<close>

theorem find_threshold_subset:
  assumes "find_threshold roc_curve y_test y_preds fpr_below tpr_above = Inr ts"
  shows "\<exists>fpr tpr thresholds.
           roc_curve y_test y_preds = Inr (fpr, tpr, thresholds) \<and> set ts \<subseteq> set thresholds"
proof -
  from find_threshold_returns [OF assms] obtain fpr tpr thresholds msk
    where rc: "roc_curve y_test y_preds = Inr (fpr, tpr, thresholds)"
      and ts: "ts = map fst (filter snd (zip thresholds msk))"
    by blast
  have "set ts \<subseteq> set thresholds"
    unfolding ts by (rule mask_select_set)
  with rc show ?thesis by blast
qed

theorem find_threshold_subset_witness:
  "find_threshold example_roc [1, 0, 1, 0] [9/10, 2/10, 6/10, 4/10] (Fin 0) (Fin (1/2)) =
     Inr [Fin (9/10), Fin (6/10)] \<and>
   (\<exists>fpr tpr thresholds.
      example_roc [1, 0, 1, 0] [9/10, 2/10, 6/10, 4/10] = Inr (fpr, tpr, thresholds) \<and>
      set [Fin (9/10), Fin (6/10)] \<subseteq> set thresholds)"
proof -
  have ft: "find_threshold example_roc [1, 0, 1, 0] [9/10, 2/10, 6/10, 4/10] (Fin 0) (Fin (1/2)) =
     Inr [Fin (9/10), Fin (6/10)]"
    by (simp add: find_threshold_def example_roc_def np_and_def np_getitem_mask_def
        np_le_def np_ge_def float_ge_def)
  from find_threshold_subset [OF ft] ft show ?thesis by blast
qed

text \<open>
  C3.  When the library returns a ROC curve and no position of it meets both bounds,
  \<open>find_threshold\<close> returns the empty sequence; it does not raise.
\<close>

theorem find_threshold_empty:
  assumes "roc_curve y_test y_preds = Inr (fpr, tpr, thresholds)"
    and "roc_wf (fpr, tpr, thresholds)"
    and "\<forall>i < length thresholds.
           \<not> (float_le (fpr ! i) fpr_below \<and> float_ge (tpr ! i) tpr_above)"
  shows "find_threshold roc_curve y_test y_preds fpr_below tpr_above = Inr []"
proof -
  have "filter (qualifies fpr tpr fpr_below tpr_above) [0..<length thresholds] = []"
    using assms(3) by (simp add: filter_empty_conv qualifies_def)
  with find_threshold_on_curve [where roc_curve = roc_curve and y_test = y_test
      and y_preds = y_preds and fpr_below = fpr_below and tpr_above = tpr_above,
      OF assms(1,2)] show ?thesis
    by simp
qed

theorem find_threshold_empty_witness:
  "find_threshold example_roc [1, 0, 1, 0] [9/10, 2/10, 6/10, 4/10] (Fin (- 1)) (Fin 1) = Inr []"
proof -
  have rc: "example_roc [1, 0, 1, 0] [9/10, 2/10, 6/10, 4/10] =
     Inr ([Fin 0, Fin 0, Fin 0, Fin 1], [Fin 0, Fin (1/2), Fin 1, Fin 1],
          [PosInf, Fin (9/10), Fin (6/10), Fin (2/10)])"
    by (simp add: example_roc_def)
  have none: "\<forall>i < length [PosInf, Fin (9/10), Fin (6/10), Fin (2/10)].
      \<not> (float_le ([Fin 0, Fin 0, Fin 0, Fin 1] ! i) (Fin (- 1)) \<and>
         float_ge ([Fin 0, Fin (1/2), Fin 1, Fin 1] ! i) (Fin 1))"
    by (simp add: less_Suc_eq all_conj_distrib nth_Cons')
  show ?thesis
    by (rule find_threshold_empty [where roc_curve = example_roc and y_test = "[1, 0, 1, 0]"
        and y_preds = "[9/10, 2/10, 6/10, 4/10]", OF rc example_roc_wf none])
qed

text \<open>
  C10.  The sequence that \<open>find_threshold\<close> returns is a subsequence of the library's
  threshold array: the values kept stay in the order they have there.
\<close>

theorem find_threshold_order:
  assumes "find_threshold roc_curve y_test y_preds fpr_below tpr_above = Inr ts"
  shows "\<exists>fpr tpr thresholds.
           roc_curve y_test y_preds = Inr (fpr, tpr, thresholds) \<and> subseq ts thresholds"
proof -
  from find_threshold_returns [OF assms] obtain fpr tpr thresholds msk
    where rc: "roc_curve y_test y_preds = Inr (fpr, tpr, thresholds)"
      and ts: "ts = map fst (filter snd (zip thresholds msk))"
    by blast
  have "subseq ts thresholds"
    unfolding ts by (rule mask_select_subseq)
  with rc show ?thesis by blast
qed

theorem find_threshold_order_witness:
  "find_threshold example_roc [1, 0, 1, 0] [9/10, 2/10, 6/10, 4/10] (Fin 1) (Fin (1/2)) =
     Inr [Fin (9/10), Fin (6/10), Fin (2/10)] \<and>
   (\<exists>fpr tpr thresholds.
      example_roc [1, 0, 1, 0] [9/10, 2/10, 6/10, 4/10] = Inr (fpr, tpr, thresholds) \<and>
      subseq [Fin (9/10), Fin (6/10), Fin (2/10)] thresholds)"
proof -
  have ft: "find_threshold example_roc [1, 0, 1, 0] [9/10, 2/10, 6/10, 4/10] (Fin 1) (Fin (1/2)) =
     Inr [Fin (9/10), Fin (6/10), Fin (2/10)]"
    by (simp add: find_threshold_def example_roc_def np_and_def np_getitem_mask_def
        np_le_def np_ge_def float_ge_def)
  from find_threshold_order [OF ft] ft show ?thesis by blast
qed

section \<open>The distinct class labels\<close>

text \<open>\<open>unique\<close> keeps every value once.\<close>

lemma unique_fold_set:
  "set (fold (\<lambda>v seen. if v \<in> set seen then seen else seen @ [v]) y acc) = set acc \<union> set y"
  by (induction y arbitrary: acc) auto

lemma unique_fold_distinct:
  "distinct acc \<Longrightarrow>
   distinct (fold (\<lambda>v seen. if v \<in> set seen then seen else seen @ [v]) y acc)"
  by (induction y arbitrary: acc) auto

lemma set_unique: "set (unique y) = set y"
  by (simp add: unique_def unique_fold_set)

lemma distinct_unique: "distinct (unique y)"
  by (simp add: unique_def unique_fold_distinct)

lemma length_sort_unique: "length (sort (unique y)) = card (set y)"
  using distinct_card [OF distinct_unique [of y]] by (simp add: set_unique)

section \<open>Properties of \<open>confusion_matrix_visual\<close>\<close>

lemma cell_np_T: "cell (np_T mat) i j = cell mat j i"
  by (auto simp: cell_def np_T_def nrows_def)

lemma flatten_np_T_length: "length (flatten (np_T mat)) = ncols mat * nrows mat"
  by (simp add: flatten_def np_T_def nrows_def length_concat comp_def sum_list_triv)

text \<open>
  Once the two library calls have returned, nothing else can fail: this is the Axes
  that the function returns.
\<close>

lemma confusion_matrix_visual_after_heatmap:
  assumes "confusion_matrix y_true y_pred = Inr mat"
    and "\<not> repeats_keyword kw"
    and "sns_heatmap \<lparr>data = np_T mat, annot = True, fmt = ''d'', kwargs = kw\<rparr> ax = Inr axes0"
  shows "confusion_matrix_visual confusion_matrix sns_heatmap y_true y_pred class_labels ax ttl kw =
         Inr (axes0\<lparr>xlabel := ''Actual'', ylabel := ''Model Prediction'',
                xticks := Some (map (\<lambda>i. real i + 0.5) [0..<length class_labels]),
                xticklabels := Some class_labels,
                yticks := Some (map (\<lambda>i. real i + 0.5) [0..<length class_labels]),
                yticklabels := Some class_labels,
                title := [S (title_or ttl ''Confusion Matrix'')]\<rparr>)"
  using assms
  by (simp add: confusion_matrix_visual_def set_xlabel_def set_ylabel_def set_xticks_def
      set_yticks_def set_xticklabels_def set_yticklabels_def set_title_def Let_def)

text \<open>
  The function raises only what a library call raises, or the \<open>TypeError\<close> of a
  parameter named again in \<open>kwargs\<close>; the tick-labelling calls raise nothing.
\<close>

lemma confusion_matrix_visual_raises:
  assumes "confusion_matrix_visual confusion_matrix sns_heatmap y_true y_pred class_labels ax ttl kw
             = Inl e"
  shows "confusion_matrix y_true y_pred = Inl e \<or>
         (\<exists>mat. confusion_matrix y_true y_pred = Inr mat \<and>
            ((e = TypeError \<and> repeats_keyword kw) \<or>
             sns_heatmap \<lparr>data = np_T mat, annot = True, fmt = ''d'', kwargs = kw\<rparr> ax = Inl e))"
proof (cases "confusion_matrix y_true y_pred")
  case (Inl e')
  with assms show ?thesis by (simp add: confusion_matrix_visual_def)
next
  case (Inr mat)
  show ?thesis
  proof (cases "repeats_keyword kw")
    case True
    with assms Inr show ?thesis by (simp add: confusion_matrix_visual_def)
  next
    case False
    show ?thesis
    proof (cases "sns_heatmap \<lparr>data = np_T mat, annot = True, fmt = ''d'', kwargs = kw\<rparr> ax")
      case (Inl e')
      with assms Inr False show ?thesis by (simp add: confusion_matrix_visual_def)
    next
      case (Inr axes0)
      from confusion_matrix_visual_after_heatmap
        [where confusion_matrix = confusion_matrix and sns_heatmap = sns_heatmap
          and y_true = y_true and y_pred = y_pred and ax = ax and class_labels = class_labels
          and ttl = ttl,
          OF \<open>confusion_matrix y_true y_pred = Inr mat\<close> False Inr] assms
      show ?thesis by simp
    qed
  qed
qed

text \<open>The stand-ins on the inputs used below.\<close>

lemma no_extra_keywords: "\<not> repeats_keyword []"
  by (simp add: repeats_keyword_def)

lemma sk_example:
  "sk_confusion_matrix [0::nat, 1, 1, 0] [0, 1, 0, 0] = Inr (NDArray2 2 [[2, 0], [1, 1]])"
  by (simp add: sk_confusion_matrix_def sk_labels_def unique_def)

lemma sk_two_labels:
  "sk_confusion_matrix [0::nat, 1] [0, 1] = Inr (NDArray2 2 [[1, 0], [0, 1]])"
  by (simp add: sk_confusion_matrix_def sk_labels_def unique_def)

lemma np_T_example: "np_T (NDArray2 2 [[2, 0], [1, 1 :: int]]) = NDArray2 2 [[2, 1], [0, 1]]"
  by (simp add: np_T_def nrows_def upt_rec)

lemma np_T_two_labels: "np_T (NDArray2 2 [[1, 0], [0, 1 :: int]]) = NDArray2 2 [[1, 0], [0, 1]]"
  by (simp add: np_T_def nrows_def upt_rec)

lemma plain_heatmap_example:
  "plain_heatmap \<lparr>data = np_T (NDArray2 2 [[2, 0], [1, 1]]), annot = True, fmt = ''d'',
                  kwargs = []\<rparr> None =
   Inr (new_axes\<lparr>heatmap := Some \<lparr>shown = NDArray2 2 [[2, 1], [0, 1]], texts = [2, 1, 0, 1]\<rparr>\<rparr>)"
  unfolding np_T_example by (simp add: plain_heatmap_def flatten_def)

lemma plain_heatmap_two_labels:
  "plain_heatmap \<lparr>data = np_T (NDArray2 2 [[1, 0], [0, 1]]), annot = True, fmt = ''d'',
                  kwargs = []\<rparr> None =
   Inr (new_axes\<lparr>heatmap := Some \<lparr>shown = NDArray2 2 [[1, 0], [0, 1]], texts = [1, 0, 0, 1]\<rparr>\<rparr>)"
  unfolding np_T_two_labels by (simp add: plain_heatmap_def flatten_def)

lemma plain_heatmap_draws_all:
  "\<forall>d a. plain_heatmap \<lparr>data = d, annot = True, fmt = ''d'', kwargs = []\<rparr> ax = Inr a
           \<longrightarrow> draws_all d a"
  by (auto simp: plain_heatmap_def draws_all_def split: if_splits)

text \<open>
  The library's contract that the theorems on the confusion matrix assume, shown for
  its documented result: with \<open>N\<close> distinct labels in the two vectors the matrix is
  \<open>N \<times> N\<close>.
\<close>

lemma sk_confusion_matrix_square:
  assumes "length y_true = length y_pred" and "y_true \<noteq> []"
  shows "\<exists>mat. sk_confusion_matrix y_true y_pred = Inr mat \<and>
           nrows mat = card (set y_true \<union> set y_pred) \<and>
           ncols mat = card (set y_true \<union> set y_pred) \<and> array2_wf mat"
  using assms length_sort_unique [of "y_true @ y_pred"]
  by (simp add: sk_confusion_matrix_def sk_labels_def nrows_def array2_wf_def
      list_all_iff Let_def)

text \<open>
  C4.  Let the library return the confusion matrix \<open>mat\<close>, let \<open>kwargs\<close> name no
  parameter of the call again, and let the renderer, which draws the matrix it is
  handed with every cell annotated, return on the call.  Then
  \<open>confusion_matrix_visual\<close> returns an Axes whose heatmap shows the transpose of
  \<open>mat\<close>: the cell at row \<open>i\<close>, column \<open>j\<close> is the entry of \<open>mat\<close> at row \<open>j\<close>,
  column \<open>i\<close> (and neither exists when the other does not), each cell carries its
  value as text, the rows (y axis) are labelled as the model's prediction and the
  columns (x axis) as the actual class.
\<close>

theorem confusion_matrix_visual_transposed:
  assumes "confusion_matrix y_true y_pred = Inr mat"
    and "\<not> repeats_keyword kw"
    and "\<forall>d a. sns_heatmap \<lparr>data = d, annot = True, fmt = ''d'', kwargs = kw\<rparr> ax = Inr a
               \<longrightarrow> draws_all d a"
    and "sns_heatmap \<lparr>data = np_T mat, annot = True, fmt = ''d'', kwargs = kw\<rparr> ax = Inr axes0"
  shows "\<exists>ax' h. confusion_matrix_visual confusion_matrix sns_heatmap y_true y_pred
                   class_labels ax ttl kw = Inr ax' \<and>
           heatmap ax' = Some h \<and> shown h = np_T mat \<and> texts h = flatten (np_T mat) \<and>
           (\<forall>i j. cell (shown h) i j = cell mat j i) \<and>
           ylabel ax' = ''Model Prediction'' \<and> xlabel ax' = ''Actual''"
proof -
  from assms(3,4) have drawn: "heatmap axes0 = Some \<lparr>shown = np_T mat, texts = flatten (np_T mat)\<rparr>"
    by (simp add: draws_all_def)
  let ?h = "\<lparr>shown = np_T mat, texts = flatten (np_T mat)\<rparr>"
  have "shown ?h = np_T mat" "texts ?h = flatten (np_T mat)"
    "\<forall>i j. cell (shown ?h) i j = cell mat j i"
    by (simp_all add: cell_np_T)
  with drawn show ?thesis
    unfolding confusion_matrix_visual_after_heatmap
      [where confusion_matrix = confusion_matrix and sns_heatmap = sns_heatmap
        and y_true = y_true and y_pred = y_pred and ax = ax, OF assms(1,2,4)]
    by simp
qed

text \<open>
  The instance of the spec: for \<open>y_true = [0,1,1,0]\<close> and \<open>y_pred = [0,1,0,0]\<close> the
  library's matrix is \<open>[[2,0],[1,1]]\<close> and the heatmap shows \<open>[[2,1],[0,1]]\<close>.
\<close>

theorem confusion_matrix_visual_transposed_witness:
  "sk_confusion_matrix [0::nat, 1, 1, 0] [0, 1, 0, 0] = Inr (NDArray2 2 [[2, 0], [1, 1]]) \<and>
   (\<exists>ax' h. confusion_matrix_visual sk_confusion_matrix (plain_heatmap :: nat heatmap_fn)
               [0::nat, 1, 1, 0] [0, 1, 0, 0] [''neg'', ''pos''] None None [] = Inr ax' \<and>
      heatmap ax' = Some h \<and> shown h = NDArray2 2 [[2, 1], [0, 1]] \<and>
      texts h = [2, 1, 0, 1] \<and>
      cell (shown h) 0 1 = Inr 1 \<and> cell (shown h) 1 0 = Inr 0)"
proof -
  from confusion_matrix_visual_transposed
    [where confusion_matrix = sk_confusion_matrix
      and sns_heatmap = "plain_heatmap :: nat heatmap_fn"
      and y_true = "[0::nat, 1, 1, 0]" and y_pred = "[0, 1, 0, 0]" and ax = None
      and class_labels = "[''neg'', ''pos'']" and ttl = None,
      OF sk_example no_extra_keywords plain_heatmap_draws_all plain_heatmap_example]
  obtain ax' h where
    ret: "confusion_matrix_visual sk_confusion_matrix (plain_heatmap :: nat heatmap_fn)
            [0::nat, 1, 1, 0] [0, 1, 0, 0] [''neg'', ''pos''] None None [] = Inr ax'"
    and h: "heatmap ax' = Some h" "shown h = np_T (NDArray2 2 [[2, 0], [1, 1]])"
      "texts h = flatten (np_T (NDArray2 2 [[2, 0], [1, 1]]))"
    by blast
  have "shown h = NDArray2 2 [[2, 1], [0, 1]]" "texts h = [2, 1, 0, 1]"
    "cell (shown h) 0 1 = Inr 1" "cell (shown h) 1 0 = Inr 0"
    by (simp_all add: h np_T_example cell_def nrows_def flatten_def)
  with ret h(1) sk_example show ?thesis by blast
qed

text \<open>
  C8 (as amended).  \<open>confusion_matrix_visual\<close> does not fail when it labels the axis
  ticks, whatever the number of display names, also when the input has more unique
  labels than \<open>class_labels\<close> has names: \<open>class_labels\<close> is never indexed by a label.
  Once the confusion-matrix call and the heatmap call have returned, the function
  returns, having set one tick per display name on each axis, labelled with the names
  in order.
\<close>

theorem confusion_matrix_visual_ticks_total:
  assumes "confusion_matrix y_true y_pred = Inr mat"
    and "\<not> repeats_keyword kw"
    and "sns_heatmap \<lparr>data = np_T mat, annot = True, fmt = ''d'', kwargs = kw\<rparr> ax = Inr axes0"
  shows "\<exists>ax'. confusion_matrix_visual confusion_matrix sns_heatmap y_true y_pred
                 class_labels ax ttl kw = Inr ax' \<and>
           xticks ax' = Some (map (\<lambda>i. real i + 0.5) [0..<length class_labels]) \<and>
           xticklabels ax' = Some class_labels \<and>
           yticks ax' = Some (map (\<lambda>i. real i + 0.5) [0..<length class_labels]) \<and>
           yticklabels ax' = Some class_labels"
  unfolding confusion_matrix_visual_after_heatmap
    [where confusion_matrix = confusion_matrix and sns_heatmap = sns_heatmap
      and y_true = y_true and y_pred = y_pred and ax = ax, OF assms]
  by simp

theorem confusion_matrix_visual_ticks_total_witness:
  "length (sk_labels [0::nat, 1, 1, 0] [0, 1, 0, 0]) = 2 \<and>
   (\<exists>ax'. confusion_matrix_visual sk_confusion_matrix (plain_heatmap :: nat heatmap_fn)
             [0::nat, 1, 1, 0] [0, 1, 0, 0] [''neg''] None None [] = Inr ax' \<and>
      xticks ax' = Some [1/2] \<and> xticklabels ax' = Some [''neg''] \<and>
      yticks ax' = Some [1/2] \<and> yticklabels ax' = Some [''neg''])"
proof -
  have n: "length (sk_labels [0::nat, 1, 1, 0] [0, 1, 0, 0]) = 2"
    by (simp add: sk_labels_def unique_def)
  from confusion_matrix_visual_ticks_total
    [where confusion_matrix = sk_confusion_matrix
      and sns_heatmap = "plain_heatmap :: nat heatmap_fn"
      and y_true = "[0::nat, 1, 1, 0]" and y_pred = "[0, 1, 0, 0]" and ax = None
      and class_labels = "[''neg'']" and ttl = None,
      OF sk_example no_extra_keywords plain_heatmap_example] n
  show ?thesis by simp
qed

text \<open>
  The claim as the spec states it fails: two unique labels and a single display name,
  and the function returns instead of raising.
\<close>

theorem confusion_matrix_visual_no_index_error:
  "length (sk_labels [0::nat, 1, 1, 0] [0, 1, 0, 0]) = 2 \<and> length [''neg''] = 1 \<and>
   isl (confusion_matrix_visual sk_confusion_matrix (plain_heatmap :: nat heatmap_fn)
          [0::nat, 1, 1, 0] [0, 1, 0, 0] [''neg''] None None []) = False"
proof -
  have n: "length (sk_labels [0::nat, 1, 1, 0] [0, 1, 0, 0]) = 2"
    by (simp add: sk_labels_def unique_def)
  have r: "isl (confusion_matrix_visual sk_confusion_matrix (plain_heatmap :: nat heatmap_fn)
          [0::nat, 1, 1, 0] [0, 1, 0, 0] [''neg''] None None []) = False"
    unfolding confusion_matrix_visual_def sk_example
    by (simp add: no_extra_keywords plain_heatmap_example set_xlabel_def set_ylabel_def
        set_xticks_def set_yticks_def set_xticklabels_def set_yticklabels_def set_title_def
        Let_def)
  from n r show ?thesis by simp
qed

text \<open>
  C9 (as amended).  Let the library return an \<open>N \<times> N\<close> matrix, as it does for \<open>N\<close>
  unique class labels, let \<open>kwargs\<close> name no parameter of the call again, and let the
  renderer, which draws the matrix it is handed with every cell annotated, return on
  the call.  Then the heatmap of \<open>confusion_matrix_visual\<close> has exactly \<open>N * N\<close>
  annotated cells, and the number of tick marks set on each axis is the number of
  display names in \<open>class_labels\<close>; it is \<open>N\<close> exactly when the caller passes \<open>N\<close>
  names.
\<close>

theorem confusion_matrix_visual_counts:
  assumes "confusion_matrix y_true y_pred = Inr mat"
    and "nrows mat = n" and "ncols mat = n"
    and "\<not> repeats_keyword kw"
    and "\<forall>d a. sns_heatmap \<lparr>data = d, annot = True, fmt = ''d'', kwargs = kw\<rparr> ax = Inr a
               \<longrightarrow> draws_all d a"
    and "sns_heatmap \<lparr>data = np_T mat, annot = True, fmt = ''d'', kwargs = kw\<rparr> ax = Inr axes0"
  shows "\<exists>ax'. confusion_matrix_visual confusion_matrix sns_heatmap y_true y_pred
                 class_labels ax ttl kw = Inr ax' \<and>
           annotated_count ax' = n * n \<and>
           tick_counts ax' = (Some (length class_labels), Some (length class_labels)) \<and>
           (tick_counts ax' = (Some n, Some n) \<longleftrightarrow> length class_labels = n)"
proof -
  from assms(5,6) have drawn: "heatmap axes0 = Some \<lparr>shown = np_T mat, texts = flatten (np_T mat)\<rparr>"
    by (simp add: draws_all_def)
  show ?thesis
    unfolding confusion_matrix_visual_after_heatmap
      [where confusion_matrix = confusion_matrix and sns_heatmap = sns_heatmap
        and y_true = y_true and y_pred = y_pred and ax = ax, OF assms(1,4,6)]
    using assms(2,3)
    by (auto simp: annotated_count_def tick_counts_def drawn flatten_np_T_length)
qed

theorem confusion_matrix_visual_counts_witness:
  "\<exists>ax'. confusion_matrix_visual sk_confusion_matrix (plain_heatmap :: nat heatmap_fn)
           [0::nat, 1, 1, 0] [0, 1, 0, 0] [''neg'', ''pos''] None None [] = Inr ax' \<and>
     annotated_count ax' = 4 \<and> tick_counts ax' = (Some 2, Some 2)"
proof -
  have r: "nrows (NDArray2 2 [[2, 0], [1, 1 :: int]]) = 2" "ncols (NDArray2 2 [[2, 0], [1, 1 :: int]]) = 2"
    by (simp_all add: nrows_def)
  from confusion_matrix_visual_counts
    [where confusion_matrix = sk_confusion_matrix
      and sns_heatmap = "plain_heatmap :: nat heatmap_fn"
      and y_true = "[0::nat, 1, 1, 0]" and y_pred = "[0, 1, 0, 0]" and ax = None
      and class_labels = "[''neg'', ''pos'']" and ttl = None,
      OF sk_example r no_extra_keywords plain_heatmap_draws_all plain_heatmap_example]
  obtain ax' where
    ret: "confusion_matrix_visual sk_confusion_matrix (plain_heatmap :: nat heatmap_fn)
           [0::nat, 1, 1, 0] [0, 1, 0, 0] [''neg'', ''pos''] None None [] = Inr ax'"
    and cells: "annotated_count ax' = 2 * 2"
    and ticks: "(tick_counts ax' = (Some 2, Some 2)) = (length [''neg'', ''pos''] = 2)"
    by blast
  from cells have "annotated_count ax' = 4" by simp
  moreover from ticks have "tick_counts ax' = (Some 2, Some 2)" by simp
  ultimately show ?thesis using ret by blast
qed

text \<open>
  The claim as the spec states it fails: two unique labels give four annotated cells,
  and with a single display name each axis gets one tick mark, not two.
\<close>

theorem confusion_matrix_visual_tick_mismatch:
  "card (set [0::nat, 1] \<union> set [0, 1]) = 2 \<and>
   map_sum id annotated_count
     (confusion_matrix_visual sk_confusion_matrix (plain_heatmap :: nat heatmap_fn)
        [0::nat, 1] [0, 1] [''only''] None None []) = Inr 4 \<and>
   map_sum id tick_counts
     (confusion_matrix_visual sk_confusion_matrix (plain_heatmap :: nat heatmap_fn)
        [0::nat, 1] [0, 1] [''only''] None None []) = Inr (Some 1, Some 1)"
proof -
  have n: "card (set [0::nat, 1] \<union> set [0, 1]) = 2"
    by simp
  have r: "confusion_matrix_visual sk_confusion_matrix (plain_heatmap :: nat heatmap_fn)
        [0::nat, 1] [0, 1] [''only''] None None [] =
      Inr (new_axes
        \<lparr>heatmap := Some \<lparr>shown = NDArray2 2 [[1, 0], [0, 1]], texts = [1, 0, 0, 1]\<rparr>,
         xlabel := ''Actual'', ylabel := ''Model Prediction'',
         xticks := Some [1/2], xticklabels := Some [''only''],
         yticks := Some [1/2], yticklabels := Some [''only''],
         title := [S ''Confusion Matrix'']\<rparr>)"
    unfolding confusion_matrix_visual_def sk_two_labels
    by (simp add: no_extra_keywords plain_heatmap_two_labels set_xlabel_def set_ylabel_def
        set_xticks_def set_yticks_def set_xticklabels_def set_yticklabels_def set_title_def
        Let_def title_or_def)
  show ?thesis
    unfolding r using n
    by (simp add: annotated_count_def tick_counts_def)
qed

section \<open>Properties of \<open>plot_pr_curve\<close>\<close>

lemma py_sum_np_eq: "py_sum (np_eq y c) = int (count_list y c)"
  by (induction y) (simp_all add: py_sum_def np_eq_def)

lemma class_share_eq:
  "y \<noteq> [] \<Longrightarrow> class_share y c = Inr (Fin (real (count_list y c) / real (length y)))"
  by (simp add: class_share_def py_sum_np_eq)

text \<open>
  C5.  When the three library calls return and \<open>y_test\<close> is not empty,
  \<open>plot_pr_curve\<close> returns an Axes on which it has drawn exactly two artists: first the
  horizontal baseline, at the number of entries of \<open>y_test\<close> equal to
  \<open>positive_class\<close> divided by the number of entries, then the model's curve.
\<close>

theorem plot_pr_curve_baseline:
  assumes "precision_recall_curve y_test preds = Inr (precision, recall, thresholds)"
    and "average_precision_score y_test preds positive_class = Inr ap"
    and "auc recall precision = Inr a"
    and "y_test \<noteq> []"
  shows "\<exists>ax. plot_pr_curve precision_recall_curve average_precision_score auc
                y_test preds positive_class = Inr ax \<and>
           artists ax =
             [HLine (Fin (real (count_list y_test positive_class) / real (length y_test)))
                [S ''baseline''],
              Line2D recall precision [S ''model'']]"
  using assms(1,2,3) class_share_eq [OF assms(4), of positive_class]
  by (simp add: plot_pr_curve_def Let_def axhline_def plot_def legend_def set_title_def
      set_xlabel_def set_ylabel_def set_xlim_def set_ylim_def new_axes_def)

text \<open>The instance of the spec: two positives out of four give the baseline 0.5.\<close>

theorem plot_pr_curve_baseline_witness:
  "\<exists>ax. plot_pr_curve example_prc example_aps example_auc
          [1, 1, 0, 0] [9/10, 8/10, 3/10, 1/10] 1 = Inr ax \<and>
     artists ax =
       [HLine (Fin (1/2)) [S ''baseline''],
        Line2D [Fin 1, Fin 1, Fin 1, Fin (1/2), Fin 0]
               [Fin (1/2), Fin (2/3), Fin 1, Fin 1, Fin 1] [S ''model'']]"
proof -
  have prc: "example_prc [1, 1, 0, 0] [9/10, 8/10, 3/10, 1/10] =
     Inr ([Fin (1/2), Fin (2/3), Fin 1, Fin 1, Fin 1],
          [Fin 1, Fin 1, Fin 1, Fin (1/2), Fin 0],
          [Fin (1/10), Fin (3/10), Fin (8/10), Fin (9/10)])"
    by (simp add: example_prc_def)
  have aps: "example_aps [1, 1, 0, 0] [9/10, 8/10, 3/10, 1/10] 1 = Inr (Fin 1)"
    by (simp add: example_aps_def)
  have auc: "example_auc [Fin 1, Fin 1, Fin 1, Fin (1/2), Fin 0]
               [Fin (1/2), Fin (2/3), Fin 1, Fin 1, Fin 1] = Inr (Fin 1)"
    by (simp add: example_auc_def)
  have ne: "[1, 1, 0, 0 :: nat] \<noteq> []"
    by simp
  from plot_pr_curve_baseline [where precision_recall_curve = example_prc
      and average_precision_score = example_aps and auc = example_auc, OF prc aps auc ne]
  show ?thesis by simp
qed

text \<open>On an empty label vector nothing is drawn: the function raises.\<close>

lemma plot_pr_curve_empty:
  "isl (plot_pr_curve precision_recall_curve average_precision_score auc [] preds positive_class)"
  by (simp add: plot_pr_curve_def class_share_def split: sum.splits prod.splits)

section \<open>Properties of \<open>plot_multi_class_roc\<close>\<close>

lemma roc_loop_step:
  "roc_loop roc_curve auc y_test preds ((i, c) # rest) ax =
     (case one_vs_rest_roc roc_curve auc y_test preds i c of
        Inl e \<Rightarrow> Inl e
      | Inr l \<Rightarrow> roc_loop roc_curve auc y_test preds rest (ax\<lparr>artists := artists ax @ [l]\<rparr>))"
  by (simp add: one_vs_rest_roc_def getcol_def np_where_def np_eq_def plot_def comp_def
      split: sum.splits prod.splits)

text \<open>The loop draws the curves of the classes one after the other, or stops.\<close>

lemma roc_loop_draws:
  "list_all2 (\<lambda>(i, c) l. one_vs_rest_roc roc_curve auc y_test preds i c = Inr l) ics curves \<Longrightarrow>
   roc_loop roc_curve auc y_test preds ics ax = Inr (ax\<lparr>artists := artists ax @ curves\<rparr>)"
proof (induction ics curves arbitrary: ax rule: list_all2_induct)
  case Nil
  then show ?case by simp
next
  case (Cons ic ics l curves)
  obtain i c where ic: "ic = (i, c)" by (cases ic)
  from Cons.hyps(1) ic have "one_vs_rest_roc roc_curve auc y_test preds i c = Inr l"
    by simp
  then show ?case
    unfolding ic roc_loop_step by (simp add: Cons.IH)
qed

lemma roc_loop_returned:
  "roc_loop roc_curve auc y_test preds ics ax = Inr ax' \<Longrightarrow>
   \<exists>curves. list_all2 (\<lambda>(i, c) l. one_vs_rest_roc roc_curve auc y_test preds i c = Inr l)
              ics curves \<and>
            ax' = ax\<lparr>artists := artists ax @ curves\<rparr>"
proof (induction ics arbitrary: ax)
  case Nil
  then show ?case by simp
next
  case (Cons ic ics)
  obtain i c where ic: "ic = (i, c)" by (cases ic)
  from Cons.prems obtain l where
    l: "one_vs_rest_roc roc_curve auc y_test preds i c = Inr l"
    and rest: "roc_loop roc_curve auc y_test preds ics (ax\<lparr>artists := artists ax @ [l]\<rparr>) = Inr ax'"
    unfolding ic roc_loop_step by (auto split: sum.splits)
  from Cons.IH [OF rest] obtain curves where
    "list_all2 (\<lambda>(i, c) l. one_vs_rest_roc roc_curve auc y_test preds i c = Inr l) ics curves"
    and "ax' = ax\<lparr>artists := artists ax @ l # curves\<rparr>"
    by auto
  with l ic show ?case
    by (intro exI [of _ "l # curves"]) simp
qed

lemma classes_sorted:
  "sorted (sort (unique y)) \<and> distinct (sort (unique y)) \<and> set (sort (unique y)) = set y"
  by (simp add: distinct_unique set_unique)

text \<open>
  C7.  \<open>plot_multi_class_roc\<close> goes through the distinct class labels in ascending
  order.  When, for every position \<open>i\<close> of that order, the library calls for the
  \<open>i\<close>-th class succeed (labels binarized against that class, ROC curve against
  column \<open>i\<close> of the table, AUC), giving the labelled curve \<open>curves ! i\<close>, the
  function returns, and what it has drawn is the single diagonal baseline followed by
  these curves, one per class, in the order of the classes.
\<close>

theorem plot_multi_class_roc_curves:
  assumes "length curves = length (sort (unique y_test))"
    and "\<forall>i < length (sort (unique y_test)).
           one_vs_rest_roc roc_curve auc y_test preds i (sort (unique y_test) ! i)
             = Inr (curves ! i)"
  shows "sorted (sort (unique y_test)) \<and> distinct (sort (unique y_test)) \<and>
         set (sort (unique y_test)) = set y_test \<and>
         (\<exists>ax'. plot_multi_class_roc roc_curve auc y_test preds ax = Inr ax' \<and>
            artists ax' =
              artists (case ax of None \<Rightarrow> new_axes | Some a \<Rightarrow> a) @
              Line2D [Fin 0, Fin 1] [Fin 0, Fin 1] [S ''baseline''] # curves)"
proof -
  let ?cls = "sort (unique y_test)"
  have "list_all2 (\<lambda>(i, c) l. one_vs_rest_roc roc_curve auc y_test preds i c = Inr l)
          (enumerate 0 ?cls) curves"
    using assms by (simp add: list_all2_conv_all_nth nth_enumerate_eq)
  from roc_loop_draws [OF this]
  have "\<exists>ax'. plot_multi_class_roc roc_curve auc y_test preds ax = Inr ax' \<and>
            artists ax' =
              artists (case ax of None \<Rightarrow> new_axes | Some a \<Rightarrow> a) @
              Line2D [Fin 0, Fin 1] [Fin 0, Fin 1] [S ''baseline''] # curves"
    by (simp add: plot_multi_class_roc_def Let_def plot_def legend_def set_title_def
        set_xlabel_def set_ylabel_def)
  with classes_sorted [of y_test] show ?thesis by blast
qed

lemma example_classes: "sort (unique [2, 0, 1, 0 :: nat]) = [0, 1, 2]"
  by (simp add: unique_def)

text \<open>
  An instance with three classes that first appear in the order 2, 0, 1: the curves
  come in the order 0, 1, 2, and the curve at position \<open>i\<close> was computed from the
  labels binarized against the \<open>i\<close>-th class and from column \<open>i\<close>.
\<close>

theorem plot_multi_class_roc_curves_witness:
  "\<exists>ax'. plot_multi_class_roc probe_curve probe_auc [2, 0, 1, 0 :: nat] example_preds None
           = Inr ax' \<and>
     artists ax' =
       [Line2D [Fin 0, Fin 1] [Fin 0, Fin 1] [S ''baseline''],
        Line2D [Fin 0, Fin 1, Fin 0, Fin 1] [Fin (1/10), Fin (8/10), Fin (2/10), Fin (7/10)]
          [S ''class '', V 0, S ''; AUC: '', F2 (Fin 4)],
        Line2D [Fin 0, Fin 0, Fin 1, Fin 0] [Fin (2/10), Fin (1/10), Fin (6/10), Fin (2/10)]
          [S ''class '', V 1, S ''; AUC: '', F2 (Fin 4)],
        Line2D [Fin 1, Fin 0, Fin 0, Fin 0] [Fin (7/10), Fin (1/10), Fin (2/10), Fin (1/10)]
          [S ''class '', V 2, S ''; AUC: '', F2 (Fin 4)]]"
proof -
  let ?curves = "[
        Line2D [Fin 0, Fin 1, Fin 0, Fin 1] [Fin (1/10), Fin (8/10), Fin (2/10), Fin (7/10)]
          [S ''class '', V 0, S ''; AUC: '', F2 (Fin 4)],
        Line2D [Fin 0, Fin 0, Fin 1, Fin 0] [Fin (2/10), Fin (1/10), Fin (6/10), Fin (2/10)]
          [S ''class '', V 1, S ''; AUC: '', F2 (Fin 4)],
        Line2D [Fin 1, Fin 0, Fin 0, Fin 0] [Fin (7/10), Fin (1/10), Fin (2/10), Fin (1/10)]
          [S ''class '', V (2::nat), S ''; AUC: '', F2 (Fin 4)]]"
  have len: "length ?curves = length (sort (unique [2, 0, 1, 0 :: nat]))"
    unfolding example_classes by simp
  have each: "\<forall>i < length (sort (unique [2, 0, 1, 0 :: nat])).
      one_vs_rest_roc probe_curve probe_auc [2, 0, 1, 0 :: nat] example_preds i
        (sort (unique [2, 0, 1, 0 :: nat]) ! i) = Inr (?curves ! i)"
    unfolding example_classes
    by (simp add: less_Suc_eq all_conj_distrib numeral_3_eq_3 one_vs_rest_roc_def
        probe_curve_def probe_auc_def example_preds_def)
  from plot_multi_class_roc_curves [OF len each, of None]
  show ?thesis by (simp add: new_axes_def)
qed

text \<open>
  Conversely, whenever the function returns, every per-class library call has
  returned, and the curves drawn are theirs.
\<close>

lemma plot_multi_class_roc_returned:
  assumes "plot_multi_class_roc roc_curve auc y_test preds ax = Inr ax'"
  shows "\<exists>curves.
           list_all2 (\<lambda>(i, c) l. one_vs_rest_roc roc_curve auc y_test preds i c = Inr l)
             (enumerate 0 (sort (unique y_test))) curves \<and>
           artists ax' =
             artists (case ax of None \<Rightarrow> new_axes | Some a \<Rightarrow> a) @
             Line2D [Fin 0, Fin 1] [Fin 0, Fin 1] [S ''baseline''] # curves"
proof -
  let ?ax1 = "plot (case ax of None \<Rightarrow> new_axes | Some a \<Rightarrow> a)
                [Fin 0, Fin 1] [Fin 0, Fin 1] [S ''baseline'']"
  from assms obtain ax2 where
    loop: "roc_loop roc_curve auc y_test preds (enumerate 0 (sort (unique y_test))) ?ax1 = Inr ax2"
    and ax': "artists ax' = artists ax2"
    by (auto simp: plot_multi_class_roc_def Let_def legend_def set_title_def
        set_xlabel_def set_ylabel_def split: sum.splits)
  from roc_loop_returned [OF loop] ax' show ?thesis
    by (auto simp: plot_def)
qed

section \<open>Properties of \<open>plot_multi_class_pr_curve\<close>\<close>








lemma on_axes_keeps [simp]:
  "fig_axes (on_axes fig a f) = fig_axes fig"
  "length (objects (on_axes fig a f)) = length (objects fig)"
  by (simp_all add: on_axes_def)






text \<open>
  With no sample there is no class, \<open>plt.subplots(0, 3)\<close> raises and no grid is made.
\<close>

lemma plot_multi_class_pr_curve_empty:
  "plot_multi_class_pr_curve precision_recall_curve auc average_precision_score [] preds
     = Inl ValueError"
  by (simp add: plot_multi_class_pr_curve_def unique_def row_count_def subplots_def)

end
